theory Spec2Isabelle
  imports Main
begin

section \<open>serverless-env-local: the plugin object and its configuration\<close>

text \<open>
  The plugin of \<^verbatim>\<open>src/index.js\<close> is a class whose methods read \<^verbatim>\<open>this.options\<close> (the
  command line) and \<^verbatim>\<open>this.serverless\<close> (the framework's view of the project). Both are
  records here. A JavaScript property that may be \<^verbatim>\<open>undefined\<close> is an \<open>option\<close>; a string
  is a \<open>char list\<close>. The declared functions are an association list, in the order
  \<^verbatim>\<open>_.keys\<close> enumerates them; the property read \<^verbatim>\<open>functions[name]\<close> is \<open>map_of\<close>, which
  is \<open>None\<close> for a name that is not a key; what the read finds by inheritance is added
  where the code reads \<^verbatim>\<open>functions[name]\<close>.
\<close>

record cli_options =
  opt_stage :: "string option"
  opt_region :: "string option"
  opt_function :: string

record function_cfg =
  fn_custom :: "(string \<rightharpoonup> string) option"

record plugin =
  options :: "cli_options option"
  config_servicePath :: string
  config_stage :: "string option"
  config_region :: "string option"
  service_service :: string
  provider_stage :: "string option"
  provider_region :: "string option"
  service_custom :: "(string \<rightharpoonup> string) option"
  service_functions :: "(string \<times> function_cfg) list"

datatype error =
    TypeError string
  | ExpectedDirectory string
  | ENOENT string
  | EEXIST string
  | ENOTDIR string
  | EISDIR string
  | RemoteError string

text \<open>
  JavaScript truthiness of a value that is a string or \<^verbatim>\<open>undefined\<close>: \<^verbatim>\<open>undefined\<close> and the
  empty string are falsy. \<open>truthy v\<close> is \<open>Some s\<close> exactly when \<open>v\<close> is the truthy
  string \<open>s\<close>.
\<close>

definition truthy :: "string option \<Rightarrow> string option" where
  "truthy v = (case v of None \<Rightarrow> None | Some s \<Rightarrow> if s = [] then None else Some s)"

text \<open>\<^verbatim>\<open>obj && obj[key]\<close> for an object that may be \<^verbatim>\<open>undefined\<close>.\<close>

definition and_get :: "'a option \<Rightarrow> ('a \<Rightarrow> string option) \<Rightarrow> string option" where
  "and_get obj field = (case obj of None \<Rightarrow> None | Some x \<Rightarrow> field x)"

subsection \<open>Stage, region and stack name\<close>

definition getStage :: "plugin \<Rightarrow> string" where
  "getStage this =
     (case truthy (and_get (options this) opt_stage) of
        Some s \<Rightarrow> s
      | None \<Rightarrow>
          (case truthy (config_stage this) of
             Some s \<Rightarrow> s
           | None \<Rightarrow>
               (case truthy (provider_stage this) of
                  Some s \<Rightarrow> s
                | None \<Rightarrow> ''dev'')))"

definition getRegion :: "plugin \<Rightarrow> string" where
  "getRegion this =
     (case truthy (and_get (options this) opt_region) of
        Some s \<Rightarrow> s
      | None \<Rightarrow>
          (case truthy (config_region this) of
             Some s \<Rightarrow> s
           | None \<Rightarrow>
               (case truthy (provider_region this) of
                  Some s \<Rightarrow> s
                | None \<Rightarrow> ''us-east-1'')))"

definition getStackName :: "plugin \<Rightarrow> string" where
  "getStackName this = service_service this @ ''-'' @ getStage this"

text \<open>
  The precedence rule in the specification's words: the first non-empty candidate wins,
  and a literal is the fallback. An absent candidate counts as empty.
\<close>

fun first_non_empty :: "string option list \<Rightarrow> string \<Rightarrow> string" where
  "first_non_empty [] fallback = fallback"
| "first_non_empty (None # cs) fallback = first_non_empty cs fallback"
| "first_non_empty (Some s # cs) fallback = (if s \<noteq> [] then s else first_non_empty cs fallback)"

definition resolveStage :: "string option \<Rightarrow> string option \<Rightarrow> string option \<Rightarrow> string" where
  "resolveStage cliOption configStage providerStage =
     first_non_empty [cliOption, configStage, providerStage] ''dev''"

definition resolveRegion :: "string option \<Rightarrow> string option \<Rightarrow> string option \<Rightarrow> string" where
  "resolveRegion cliOption configRegion providerRegion =
     first_non_empty [cliOption, configRegion, providerRegion] ''us-east-1''"

subsection \<open>Directory and file name of a function's environment file\<close>

text \<open>
  \<^verbatim>\<open>_.replace(s, pattern, replacement)\<close> with a string pattern replaces the first
  occurrence of the pattern only.
\<close>

fun replace_first :: "string \<Rightarrow> string \<Rightarrow> string \<Rightarrow> string" where
  "replace_first pat rep [] = (if pat = [] then rep else [])"
| "replace_first pat rep (c # cs) =
     (if take (length pat) (c # cs) = pat then rep @ drop (length pat) (c # cs)
      else c # replace_first pat rep cs)"

definition getEnvDirectory :: "plugin \<Rightarrow> string" where
  "getEnvDirectory this =
     (let customDirectory = and_get (service_custom this) (\<lambda>c. c ''resource-output-dir'');
          directory = (case truthy customDirectory of Some d \<Rightarrow> d | None \<Rightarrow> ''.serverless-env-local'');
          basePath = replace_first ''/.webpack/service'' [] (config_servicePath this)
      in basePath @ ''/'' @ directory)"

definition default_file_name :: "string \<Rightarrow> string \<Rightarrow> string \<Rightarrow> string" where
  "default_file_name region stage functionName =
     ''.'' @ region @ ''_'' @ stage @ ''_'' @ functionName"

text \<open>
  \<^verbatim>\<open>functions\<close> is a plain object, so the property read \<^verbatim>\<open>functions[functionName]\<close> also
  finds what every object inherits from \<^verbatim>\<open>Object.prototype\<close>. For the names below the
  read gives a defined value (a built-in function, or the prototype object for
  \<^verbatim>\<open>__proto__\<close>) that has no \<^verbatim>\<open>custom\<close> property; an own key of that name comes first.
  For every other name that is not a key the read gives \<^verbatim>\<open>undefined\<close>.
\<close>

definition object_prototype_names :: "string list" where
  "object_prototype_names =
     [''constructor'', ''__defineGetter__'', ''__defineSetter__'', ''hasOwnProperty'',
      ''__lookupGetter__'', ''__lookupSetter__'', ''isPrototypeOf'', ''propertyIsEnumerable'',
      ''toString'', ''valueOf'', ''__proto__'', ''toLocaleString'']"

definition functions_get :: "plugin \<Rightarrow> string \<Rightarrow> function_cfg option" where
  "functions_get this functionName =
     (case map_of (service_functions this) functionName of
        Some f \<Rightarrow> Some f
      | None \<Rightarrow>
          if functionName \<in> set object_prototype_names then Some \<lparr>fn_custom = None\<rparr>
          else None)"

text \<open>
  Reading \<^verbatim>\<open>.custom\<close> of \<^verbatim>\<open>functions[functionName]\<close> when that is \<^verbatim>\<open>undefined\<close> throws.
\<close>

definition custom_of_undefined :: error where
  "custom_of_undefined = TypeError ''Cannot read property custom of undefined''"

definition getEnvFileName :: "plugin \<Rightarrow> string \<Rightarrow> error + string" where
  "getEnvFileName this functionName =
     (let stage = getStage this;
          region = getRegion this
      in case functions_get this functionName of
           None \<Rightarrow> Inl custom_of_undefined
         | Some f \<Rightarrow>
             (let customName = and_get (fn_custom f) (\<lambda>c. c ''resource-output-file'')
              in case truthy customName of
                   Some n \<Rightarrow> Inr n
                 | None \<Rightarrow> Inr (default_file_name region stage functionName)))"

section \<open>The local file system, the log and the process environment\<close>

text \<open>
  The plugin reaches the outside through \<^verbatim>\<open>this.fs\<close> (Node's \<^verbatim>\<open>fs\<close> module),
  \<^verbatim>\<open>this.serverless.cli.log\<close>, \<^verbatim>\<open>process.env\<close> and \<^verbatim>\<open>this.lambda\<close>. The first three are
  one explicit state, passed through every method and returned updated; a thrown
  exception or a rejected promise is \<open>Inl\<close> of the error together with the state reached.

  The file system is a map from path strings to nodes. Paths are compared as written (no
  normalisation, no symbolic links); a directory carries the mode it was created with
  (the process umask is not modelled). The \<^verbatim>\<open>fs\<close> calls behave as Node documents them:
  \<^verbatim>\<open>mkdirSync(path, mode)\<close> is not recursive and needs the parent directory to exist.
\<close>

datatype node = File string | Directory nat

record world =
  files :: "string \<rightharpoonup> node"
  cli_log :: "string list"
  process_env :: "string \<rightharpoonup> string"

definition dirname :: "string \<Rightarrow> string" where
  "dirname p =
     (let d = rev (drop 1 (dropWhile (\<lambda>c. c \<noteq> CHR ''/'') (rev p)))
      in if d = [] then (if take 1 p = ''/'' then ''/'' else ''.'') else d)"

definition existsSync :: "world \<Rightarrow> string \<Rightarrow> bool" where
  "existsSync w p = (files w p \<noteq> None)"

definition mkdirSync :: "string \<Rightarrow> nat \<Rightarrow> world \<Rightarrow> (error + unit) \<times> world" where
  "mkdirSync p mode w =
     (if files w p \<noteq> None then (Inl (EEXIST p), w)
      else case files w (dirname p) of
             None \<Rightarrow> (Inl (ENOENT p), w)
           | Some (File _) \<Rightarrow> (Inl (ENOTDIR p), w)
           | Some (Directory _) \<Rightarrow> (Inr (), w\<lparr>files := (files w)(p \<mapsto> Directory mode)\<rparr>))"

text \<open>\<^verbatim>\<open>statSync(path).isDirectory()\<close>\<close>

definition statSync_isDirectory :: "world \<Rightarrow> string \<Rightarrow> error + bool" where
  "statSync_isDirectory w p =
     (case files w p of
        None \<Rightarrow> Inl (ENOENT p)
      | Some (File _) \<Rightarrow> Inr False
      | Some (Directory _) \<Rightarrow> Inr True)"

text \<open>
  \<^verbatim>\<open>writeFile(path, data, callback)\<close>: the file is created or truncated and then holds
  exactly \<open>data\<close>; the callback's error is the \<open>Inl\<close> case.
\<close>

definition writeFile :: "string \<Rightarrow> string \<Rightarrow> world \<Rightarrow> (error + unit) \<times> world" where
  "writeFile p data w =
     (case files w p of
        Some (Directory _) \<Rightarrow> (Inl (EISDIR p), w)
      | _ \<Rightarrow>
          (case files w (dirname p) of
             None \<Rightarrow> (Inl (ENOENT p), w)
           | Some (File _) \<Rightarrow> (Inl (ENOTDIR p), w)
           | Some (Directory _) \<Rightarrow> (Inr (), w\<lparr>files := (files w)(p \<mapsto> File data)\<rparr>)))"

definition readFileSync :: "world \<Rightarrow> string \<Rightarrow> error + string" where
  "readFileSync w p =
     (case files w p of
        None \<Rightarrow> Inl (ENOENT p)
      | Some (Directory _) \<Rightarrow> Inl (EISDIR p)
      | Some (File content) \<Rightarrow> Inr content)"

definition log :: "string \<Rightarrow> world \<Rightarrow> world" where
  "log msg w = w\<lparr>cli_log := cli_log w @ [msg]\<rparr>"

definition set_env :: "string \<Rightarrow> string \<Rightarrow> world \<Rightarrow> world" where
  "set_env key val w = w\<lparr>process_env := (process_env w)(key \<mapsto> val)\<rparr>"

text \<open>The mode \<^verbatim>\<open>0o700\<close> (octal): read, write and search for the owner only.\<close>

definition mode_0o700 :: nat where
  "mode_0o700 = 7 * 8 * 8"

text \<open>Decimal rendering of a number inside a template literal.\<close>

fun string_of_nat :: "nat \<Rightarrow> string" where
  "string_of_nat n =
     (if n < 10 then [char_of (48 + n)]
      else string_of_nat (n div 10) @ [char_of (48 + n mod 10)])"

declare string_of_nat.simps [simp del]

section \<open>Writing a function's environment file\<close>

text \<open>
  An environment map is a JavaScript object with string values: an association list in
  the object's enumeration order. \<^verbatim>\<open>_.replace(item, /\n/g, "\\n")\<close> turns every line feed
  of a value into the two characters backslash and \<open>n\<close> and changes nothing else.
\<close>

type_synonym env_map = "(string \<times> string) list"

definition escape_newlines :: "string \<Rightarrow> string" where
  "escape_newlines item =
     concat (map (\<lambda>c. if c = CHR 0x0A then [CHR 0x5C, CHR ''n''] else [c]) item)"

definition properties_data :: "env_map \<Rightarrow> string" where
  "properties_data resources =
     foldl (\<lambda>properties (key, item).
              properties @ key @ ''='' @ escape_newlines item @ [CHR 0x0A])
           [] resources"

text \<open>The progress line of \<^verbatim>\<open>createCFFile\<close>.\<close>

definition writing_message :: "nat \<Rightarrow> string \<Rightarrow> string" where
  "writing_message n fileName =
     ''[serverless-env-local] Writing '' @ string_of_nat n @ '' CF resources to '' @ fileName"

definition createCFFile :: "plugin \<Rightarrow> string \<Rightarrow> env_map \<Rightarrow> world \<Rightarrow> (error + string) \<times> world" where
  "createCFFile this functionName resources w =
     (let path = getEnvDirectory this
      in case getEnvFileName this functionName of
           Inl err \<Rightarrow> (Inl err, w)
         | Inr fileName \<Rightarrow>
             (case (if \<not> existsSync w path then mkdirSync path mode_0o700 w else (Inr (), w)) of
                (Inl err, w1) \<Rightarrow> (Inl err, w1)
              | (Inr _, w1) \<Rightarrow>
                  (case statSync_isDirectory w1 path of
                     Inl err \<Rightarrow> (Inl err, w1)
                   | Inr False \<Rightarrow> (Inl (ExpectedDirectory path), w1)
                   | Inr True \<Rightarrow>
                       (let w2 = log (writing_message (length resources) fileName) w1;
                            fullFileName = path @ ''/'' @ fileName;
                            data = properties_data resources
                        in case writeFile fullFileName data w2 of
                             (Inl err, w3) \<Rightarrow> (Inl err, w3)
                           | (Inr _, w3) \<Rightarrow> (Inr data, w3)))))"

section \<open>Reading a function's environment file\<close>

text \<open>
  \<^verbatim>\<open>getCFFileVars\<close> hands the file to \<^verbatim>\<open>readSync\<close> of the package
  \<^verbatim>\<open>node-properties-parser\<close>, which reads the file and parses its content. The parser is
  a parameter \<open>parseFile\<close> of the model (from file content to the object it returns).
\<close>

definition getCFFileVars :: "(string \<Rightarrow> env_map) \<Rightarrow> plugin \<Rightarrow> string \<Rightarrow> world \<Rightarrow> error + env_map" where
  "getCFFileVars parseFile this functionName w =
     (let path = getEnvDirectory this
      in case getEnvFileName this functionName of
           Inl err \<Rightarrow> Inl err
         | Inr fileName \<Rightarrow>
             (let fullFileName = path @ ''/'' @ fileName
              in if \<not> existsSync w fullFileName then Inr []
                 else (case readFileSync w fullFileName of
                         Inl err \<Rightarrow> Inl err
                       | Inr content \<Rightarrow> Inr (parseFile content))))"

definition pulling_message :: "string \<Rightarrow> string" where
  "pulling_message fullPath = ''[serverless-env-local] Pulling in env variables from '' @ fullPath"

definition beforeLocalInvoke :: "(string \<Rightarrow> env_map) \<Rightarrow> plugin \<Rightarrow> world \<Rightarrow> (error + unit) \<times> world" where
  "beforeLocalInvoke parseFile this w =
     (case options this of
        None \<Rightarrow> (Inl (TypeError ''Cannot read property function of undefined''), w)
      | Some opts \<Rightarrow>
          (case getEnvFileName this (opt_function opts) of
             Inl err \<Rightarrow> (Inl err, w)
           | Inr fileName \<Rightarrow>
               (let path = getEnvDirectory this;
                    fullPath = path @ ''/'' @ fileName;
                    w1 = log (pulling_message fullPath) w
                in case getCFFileVars parseFile this (opt_function opts) w1 of
                     Inl err \<Rightarrow> (Inl err, w1)
                   | Inr envVars \<Rightarrow>
                       (Inr (), foldl (\<lambda>w' (key, val). set_env key val w') w1 envVars))))"

subsection \<open>The reader of the persisted format\<close>

text \<open>
  The parser behind \<^verbatim>\<open>readSync\<close> (package \<^verbatim>\<open>node-properties-parser\<close>) is not part of this
  repository's sources. The specification describes the reader as: parse line-oriented
  \<open>key=value\<close> records, unescaping the newline sequence, and return the resulting
  mapping. The definitions below follow that description.
\<close>

text \<open>Modelled from the spec: the records are the lines of the file, split at line feeds.\<close>

primrec split_lines :: "string \<Rightarrow> string list" where
  "split_lines [] = [[]]"
| "split_lines (c # cs) =
     (if c = CHR 0x0A then [] # split_lines cs
      else (case split_lines cs of [] \<Rightarrow> [[c]] | l # ls \<Rightarrow> (c # l) # ls))"

text \<open>
  Modelled from the spec: unescaping the newline sequence, left to right; backslash \<open>n\<close>
  becomes a line feed and every other character stands for itself.
\<close>

fun unescape_newlines :: "string \<Rightarrow> string" where
  "unescape_newlines (a # b # cs) =
     (if a = CHR 0x5C \<and> b = CHR ''n'' then CHR 0x0A # unescape_newlines cs
      else a # unescape_newlines (b # cs))"
| "unescape_newlines cs = cs"

text \<open>
  Modelled from the spec: a record is \<open>key=value\<close>, split at its first \<open>=\<close>. A line
  with no \<open>=\<close> is no record (the specification leaves the policy open; it is skipped).
\<close>

definition parse_line :: "string \<Rightarrow> (string \<times> string) option" where
  "parse_line l =
     (case dropWhile (\<lambda>c. c \<noteq> CHR ''='') l of
        [] \<Rightarrow> None
      | _ # v \<Rightarrow> Some (takeWhile (\<lambda>c. c \<noteq> CHR ''='') l, unescape_newlines v))"

text \<open>
  Modelled from the spec: the resulting mapping is an object; assigning an existing key
  replaces its value in place, a new key is appended.
\<close>

definition obj_set :: "env_map \<Rightarrow> string \<Rightarrow> string \<Rightarrow> env_map" where
  "obj_set obj key val =
     (if key \<in> fst ` set obj then map (\<lambda>(k, v). if k = key then (k, val) else (k, v)) obj
      else obj @ [(key, val)])"

text \<open>
  Modelled from the spec: the reader of the persisted format, from the content of the
  file to the mapping, standing for the absent parser of \<^verbatim>\<open>node-properties-parser\<close>.
\<close>

definition parseFile_spec :: "string \<Rightarrow> env_map" where
  "parseFile_spec content =
     foldl (\<lambda>obj (key, val). obj_set obj key val) []
           (List.map_filter parse_line (split_lines content))"

section \<open>Capture after a deploy\<close>


text \<open>
  \<^verbatim>\<open>createCFFile\<close> from its entry to the return of the promise: the directory is checked or
  made, the progress line is logged, and \<^verbatim>\<open>fs.writeFile\<close> is started with the full file
  name and the data, which are the result here.
\<close>

definition createCFFile_sync ::
  "plugin \<Rightarrow> string \<Rightarrow> env_map \<Rightarrow> world \<Rightarrow> (error + string \<times> string) \<times> world" where
  "createCFFile_sync this functionName resources w =
     (let path = getEnvDirectory this
      in case getEnvFileName this functionName of
           Inl err \<Rightarrow> (Inl err, w)
         | Inr fileName \<Rightarrow>
             (case (if \<not> existsSync w path then mkdirSync path mode_0o700 w else (Inr (), w)) of
                (Inl err, w1) \<Rightarrow> (Inl err, w1)
              | (Inr _, w1) \<Rightarrow>
                  (case statSync_isDirectory w1 path of
                     Inl err \<Rightarrow> (Inl err, w1)
                   | Inr False \<Rightarrow> (Inl (ExpectedDirectory path), w1)
                   | Inr True \<Rightarrow>
                       (let w2 = log (writing_message (length resources) fileName) w1;
                            fullFileName = path @ ''/'' @ fileName;
                            data = properties_data resources
                        in (Inr (fullFileName, data), w2)))))"












section \<open>Notions used to state the properties\<close>

text \<open>
  A function name is declared when it is a key of the service's functions. The override a
  declared function has is the value of \<^verbatim>\<open>custom['resource-output-file']\<close> when that value
  is truthy, as \<^verbatim>\<open>customName || ...\<close> tests it: an absent value and the empty string
  both count as no override.
\<close>

definition declared :: "plugin \<Rightarrow> string \<Rightarrow> bool" where
  "declared this functionName = (map_of (service_functions this) functionName \<noteq> None)"

definition file_name_override :: "plugin \<Rightarrow> string \<Rightarrow> string option" where
  "file_name_override this functionName =
     (case map_of (service_functions this) functionName of
        None \<Rightarrow> None
      | Some f \<Rightarrow> truthy (and_get (fn_custom f) (\<lambda>c. c ''resource-output-file'')))"




text \<open>
  The persisted format in the specification's words: each literal newline of a value is
  written as the two characters backslash and \<open>n\<close>, every other character as itself; the
  content is, entry after entry, the key, \<open>=\<close>, the escaped value and a newline.
\<close>

fun escaped_value :: "string \<Rightarrow> string" where
  "escaped_value [] = []"
| "escaped_value (c # cs) =
     (if c = CHR 0x0A then CHR 0x5C # CHR ''n'' # escaped_value cs else c # escaped_value cs)"

fun serialized :: "env_map \<Rightarrow> string" where
  "serialized [] = []"
| "serialized ((key, val) # rest) = key @ ''='' @ escaped_value val @ [CHR 0x0A] @ serialized rest"

section \<open>Invariants of a capture\<close>





section \<open>Example configurations\<close>

text \<open>
  The service \<open>svc\<close> in \<open>/proj\<close> with one function \<open>hello\<close>, no stage or region
  given anywhere, and the specification's example environment.
\<close>

definition ex_plugin :: plugin where
  "ex_plugin =
     \<lparr>options = Some \<lparr>opt_stage = None, opt_region = None, opt_function = ''hello''\<rparr>,
      config_servicePath = ''/proj'', config_stage = None, config_region = None,
      service_service = ''svc'', provider_stage = None, provider_region = None,
      service_custom = None,
      service_functions = [(''hello'', \<lparr>fn_custom = None\<rparr>)]\<rparr>"

definition ex_world :: world where
  "ex_world =
     \<lparr>files = [''/'' \<mapsto> Directory 493, ''/proj'' \<mapsto> Directory 493],
      cli_log = [],
      process_env = [''FOO'' \<mapsto> ''old'', ''HOME'' \<mapsto> ''/root'']\<rparr>"

definition ex_env :: env_map where
  "ex_env = [(''FOO'', ''bar''), (''MULTI'', ''line1'' @ [CHR 0x0A] @ ''line2'')]"

text \<open>The same project after an earlier capture left other variables in the file.\<close>

definition ex_world_stale :: world where
  "ex_world_stale =
     \<lparr>files = [''/'' \<mapsto> Directory 493, ''/proj'' \<mapsto> Directory 493,
               ''/proj/.serverless-env-local'' \<mapsto> Directory 448,
               ''/proj/.serverless-env-local/.us-east-1_dev_hello''
                  \<mapsto> File (''OLD=1'' @ [CHR 0x0A] @ ''GONE=2'' @ [CHR 0x0A])],
      cli_log = [],
      process_env = Map.empty\<rparr>"

text \<open>The storage directory's path is taken by a plain file.\<close>

definition ex_world_blocked :: world where
  "ex_world_blocked =
     \<lparr>files = [''/'' \<mapsto> Directory 493, ''/proj'' \<mapsto> Directory 493,
               ''/proj/.serverless-env-local'' \<mapsto> File ''notes''],
      cli_log = [],
      process_env = Map.empty\<rparr>"

text \<open>The service sets \<^verbatim>\<open>custom['resource-output-dir']\<close> to a nested path.\<close>

definition ex_plugin_nested :: plugin where
  "ex_plugin_nested = ex_plugin\<lparr>service_custom := Some [''resource-output-dir'' \<mapsto> ''a/b'']\<rparr>"

text \<open>The function sets \<^verbatim>\<open>custom['resource-output-file']\<close>: to \<open>hello.env\<close>, and to the empty string.\<close>

definition ex_plugin_override :: plugin where
  "ex_plugin_override =
     ex_plugin\<lparr>service_functions :=
       [(''hello'', \<lparr>fn_custom = Some [''resource-output-file'' \<mapsto> ''hello.env'']\<rparr>)]\<rparr>"

definition ex_plugin_empty_override :: plugin where
  "ex_plugin_empty_override =
     ex_plugin\<lparr>service_functions :=
       [(''hello'', \<lparr>fn_custom = Some [''resource-output-file'' \<mapsto> []]\<rparr>)]\<rparr>"

text \<open>Three functions; the Lambda request for the second is rejected.\<close>

definition ex_plugin3 :: plugin where
  "ex_plugin3 =
     ex_plugin\<lparr>service_functions :=
       [(''a'', \<lparr>fn_custom = None\<rparr>), (''b'', \<lparr>fn_custom = None\<rparr>), (''c'', \<lparr>fn_custom = None\<rparr>)]\<rparr>"

definition ex_lambda :: "string \<Rightarrow> error + env_map option" where
  "ex_lambda remoteId =
     (if remoteId = ''svc-dev-a'' then Inr (Some [(''A'', ''1'')])
      else if remoteId = ''svc-dev-c'' then Inr (Some [(''C'', ''3'')])
      else Inl (RemoteError ''Function not found''))"


text \<open>Two environments, one with a backslash and \<open>n\<close>, one with a line feed.\<close>

definition ex_env_backslash :: env_map where
  "ex_env_backslash = [(''A'', [CHR 0x5C, CHR ''n''])]"

definition ex_env_linefeed :: env_map where
  "ex_env_linefeed = [(''A'', [CHR 0x0A])]"

section \<open>Facts about the model\<close>

lemmas ex_defs =
  ex_plugin_def ex_world_def ex_env_def ex_world_stale_def ex_world_blocked_def
  ex_plugin_nested_def ex_plugin_override_def ex_plugin_empty_override_def ex_plugin3_def
  ex_lambda_def ex_env_backslash_def ex_env_linefeed_def

lemmas model_defs =
  createCFFile_def getEnvDirectory_def getEnvFileName_def Let_def and_get_def truthy_def
  existsSync_def mkdirSync_def dirname_def statSync_isDirectory_def log_def writeFile_def
  default_file_name_def getRegion_def getStage_def getStackName_def properties_data_def
  escape_newlines_def getCFFileVars_def readFileSync_def functions_get_def
  object_prototype_names_def

lemma split_at_separator:
  "c \<notin> set a \<Longrightarrow> c \<notin> set a' \<Longrightarrow> a @ c # b = a' @ c # b' \<Longrightarrow> a = a' \<and> b = b'"
proof (induction a arbitrary: a')
  case Nil
  then show ?case by (cases a') auto
next
  case (Cons x a)
  then show ?case by (cases a') auto
qed

lemma default_file_name_inject:
  assumes "CHR ''_'' \<notin> set r1" "CHR ''_'' \<notin> set r2" "CHR ''_'' \<notin> set s1" "CHR ''_'' \<notin> set s2"
    and "default_file_name r1 s1 f1 = default_file_name r2 s2 f2"
  shows "r1 = r2 \<and> s1 = s2 \<and> f1 = f2"
proof -
  from assms(5) have eq: "r1 @ CHR ''_'' # (s1 @ CHR ''_'' # f1) = r2 @ CHR ''_'' # (s2 @ CHR ''_'' # f2)"
    by (simp add: default_file_name_def)
  have r: "r1 = r2 \<and> s1 @ CHR ''_'' # f1 = s2 @ CHR ''_'' # f2"
    by (rule split_at_separator [OF assms(1,2) eq])
  then have "s1 = s2 \<and> f1 = f2"
    by (intro split_at_separator [OF assms(3,4)]) simp
  with r show ?thesis by simp
qed




lemma properties_data_acc:
  "foldl (\<lambda>properties (key, item). properties @ key @ ''='' @ escape_newlines item @ [CHR 0x0A]) acc env
   = acc @ concat (map (\<lambda>(key, item). key @ ''='' @ escape_newlines item @ [CHR 0x0A]) env)"
  by (induction env arbitrary: acc) (auto)

lemma properties_data_concat:
  "properties_data env = concat (map (\<lambda>(key, item). key @ ''='' @ escape_newlines item @ [CHR 0x0A]) env)"
  using properties_data_acc [of "[]" env] by (simp add: properties_data_def)

lemma mkdirSync_cases:
  "mkdirSync p m w = (r, w1) \<Longrightarrow>
     (r = Inr () \<and> w1 = w\<lparr>files := (files w)(p \<mapsto> Directory m)\<rparr>) \<or> ((\<exists>e. r = Inl e) \<and> w1 = w)"
  by (auto simp: mkdirSync_def split: if_splits option.splits node.splits)

lemma writeFile_cases:
  "writeFile p d w = (r, w1) \<Longrightarrow>
     (r = Inr () \<and> w1 = w\<lparr>files := (files w)(p \<mapsto> File d)\<rparr>) \<or> ((\<exists>e. r = Inl e) \<and> w1 = w)"
  by (auto simp: writeFile_def split: if_splits option.splits node.splits)


lemma createCFFile_dir_ready:
  assumes "getEnvFileName this fn = Inr fileName" "files w (getEnvDirectory this) = Some (Directory m)"
  shows "createCFFile this fn env w =
     (case writeFile (getEnvDirectory this @ ''/'' @ fileName) (properties_data env)
             (log (writing_message (length env) fileName) w) of
        (Inl err, w3) \<Rightarrow> (Inl err, w3)
      | (Inr _, w3) \<Rightarrow> (Inr (properties_data env), w3))"
  using assms by (simp add: createCFFile_def existsSync_def statSync_isDirectory_def Let_def)

lemma createCFFile_mkdir:
  assumes "getEnvFileName this fn = Inr fileName" "files w (getEnvDirectory this) = None"
    "files w (dirname (getEnvDirectory this)) = Some (Directory m)"
  shows "createCFFile this fn env w =
         createCFFile this fn env (w\<lparr>files := (files w)(getEnvDirectory this \<mapsto> Directory mode_0o700)\<rparr>)"
  using assms by (simp add: createCFFile_def existsSync_def statSync_isDirectory_def mkdirSync_def)

lemma createCFFile_mkdir_fails:
  assumes "getEnvFileName this fn = Inr fileName" "files w (getEnvDirectory this) = None"
    "\<forall>m. files w (dirname (getEnvDirectory this)) \<noteq> Some (Directory m)"
  shows "\<exists>e. createCFFile this fn env w = (Inl e, w)"
proof (cases "files w (dirname (getEnvDirectory this))")
  case None
  with assms(1,2) show ?thesis by (simp add: createCFFile_def existsSync_def mkdirSync_def)
next
  case (Some n)
  with assms(3) obtain c where "n = File c" by (cases n) auto
  with Some assms(1,2) show ?thesis by (simp add: createCFFile_def existsSync_def mkdirSync_def)
qed

lemma createCFFile_not_dir:
  assumes "getEnvFileName this fn = Inr fileName" "files w (getEnvDirectory this) = Some (File c)"
  shows "createCFFile this fn env w = (Inl (ExpectedDirectory (getEnvDirectory this)), w)"
  using assms by (simp add: createCFFile_def existsSync_def statSync_isDirectory_def)

lemma createCFFile_undeclared:
  assumes "getEnvFileName this fn = Inl e"
  shows "createCFFile this fn env w = (Inl e, w)"
  using assms by (simp add: createCFFile_def)


lemma writeFile_success:
  assumes "(case writeFile p d w of (Inl err, w3) \<Rightarrow> (Inl err, w3) | (Inr _, w3) \<Rightarrow> (Inr d', w3)) = (Inr data, w')"
  shows "d' = data \<and> w' = w\<lparr>files := (files w)(p \<mapsto> File d)\<rparr>"
proof -
  obtain r w3 where rw: "writeFile p d w = (r, w3)" by (cases "writeFile p d w")
  from writeFile_cases [OF rw] assms rw show ?thesis by auto
qed

lemma createCFFile_success:
  assumes "createCFFile this fn env w = (Inr data, w')"
  shows "\<exists>fileName. getEnvFileName this fn = Inr fileName \<and> data = properties_data env
          \<and> files w' (getEnvDirectory this @ ''/'' @ fileName) = Some (File data)"
proof (cases "getEnvFileName this fn")
  case (Inl e)
  with assms show ?thesis by (simp add: createCFFile_undeclared)
next
  case (Inr fileName)
  let ?path = "getEnvDirectory this"
  have ready: "data = properties_data env \<and> files w' (?path @ ''/'' @ fileName) = Some (File data)"
    if "files w0 ?path = Some (Directory m)" "createCFFile this fn env w0 = (Inr data, w')" for w0 m
    using writeFile_success [OF that(2) [unfolded createCFFile_dir_ready [OF Inr that(1)]]]
    by simp
  show ?thesis
  proof (cases "files w ?path")
    case None
    show ?thesis
    proof (cases "\<exists>m. files w (dirname ?path) = Some (Directory m)")
      case True
      then obtain m where m: "files w (dirname ?path) = Some (Directory m)" by blast
      have "createCFFile this fn env (w\<lparr>files := (files w)(?path \<mapsto> Directory mode_0o700)\<rparr>) = (Inr data, w')"
        using assms createCFFile_mkdir [OF Inr None m] by simp
      then show ?thesis using ready [of "w\<lparr>files := (files w)(?path \<mapsto> Directory mode_0o700)\<rparr>" mode_0o700] Inr
        by simp
    next
      case False
      then show ?thesis using createCFFile_mkdir_fails [OF Inr None, of env] assms by auto
    qed
  next
    case (Some n)
    show ?thesis
    proof (cases n)
      case (File c)
      then show ?thesis using createCFFile_not_dir [OF Inr, of w c env] Some assms by simp
    next
      case (Directory m)
      then show ?thesis using ready [of w m] Some assms Inr by simp
    qed
  qed
qed

lemma escape_newlines_Nil: "escape_newlines [] = []"
  by (simp add: escape_newlines_def)

lemma escape_newlines_Cons:
  "escape_newlines (c # cs) =
     (if c = CHR 0x0A then CHR 0x5C # CHR ''n'' # escape_newlines cs else c # escape_newlines cs)"
  by (simp add: escape_newlines_def)

lemma escape_newlines_escaped_value: "escape_newlines v = escaped_value v"
  by (induction v) (simp_all add: escape_newlines_Nil escape_newlines_Cons)

lemma properties_data_serialized: "properties_data env = serialized env"
  unfolding properties_data_concat
  by (induction env) (auto simp: escape_newlines_escaped_value)

lemma declared_functions_get:
  "declared this fn \<Longrightarrow> functions_get this fn = map_of (service_functions this) fn"
  by (auto simp: declared_def functions_get_def)

lemma log_fields: "files (log m w) = files w" "process_env (log m w) = process_env w"
  "cli_log (log m w) = cli_log w @ [m]"
  by (simp_all add: log_def)

lemma getCFFileVars_log: "getCFFileVars parseFile this fn (log m w) = getCFFileVars parseFile this fn w"
  by (cases "getEnvFileName this fn")
     (simp_all add: getCFFileVars_def existsSync_def readFileSync_def log_fields Let_def)

lemma foldl_set_env:
  "foldl (\<lambda>w' (key, val). set_env key val w') w envVars
   = w\<lparr>process_env := process_env w ++ map_of (rev envVars)\<rparr>"
proof (induction envVars arbitrary: w)
  case Nil
  then show ?case by simp
next
  case (Cons kv envVars)
  obtain k v where kv: "kv = (k, v)" by (cases kv)
  have m: "process_env w ++ map_of (rev (kv # envVars)) = (process_env w)(k \<mapsto> v) ++ map_of (rev envVars)"
    by (auto simp: kv fun_eq_iff map_add_def split: option.splits)
  have "foldl (\<lambda>w' (key, val). set_env key val w') w (kv # envVars)
        = (set_env k v w)\<lparr>process_env := process_env (set_env k v w) ++ map_of (rev envVars)\<rparr>"
    by (simp add: kv Cons.IH)
  also have "\<dots> = w\<lparr>process_env := (process_env w)(k \<mapsto> v) ++ map_of (rev envVars)\<rparr>"
    by (simp add: set_env_def)
  finally show ?case by (simp only: m)
qed

lemma map_of_rev_distinct: "distinct (map fst xs) \<Longrightarrow> map_of (rev xs) = map_of xs"
  by (rule map_of_inject_set [THEN iffD2]) (simp_all add: rev_map [symmetric])

lemma beforeLocalInvoke_result:
  assumes "options this = Some opts"
    and "getCFFileVars parseFile this (opt_function opts) w = Inr envVars"
  shows "\<exists>fileName. getEnvFileName this (opt_function opts) = Inr fileName \<and>
     beforeLocalInvoke parseFile this w =
       (Inr (), (log (pulling_message (getEnvDirectory this @ ''/'' @ fileName)) w)
                  \<lparr>process_env := process_env w ++ map_of (rev envVars)\<rparr>)"
proof (cases "getEnvFileName this (opt_function opts)")
  case (Inl e)
  with assms(2) show ?thesis by (simp add: getCFFileVars_def)
next
  case (Inr fileName)
  then show ?thesis
    using assms by (simp add: beforeLocalInvoke_def Let_def getCFFileVars_log foldl_set_env log_fields)
qed

lemma getEnvFileName_no_override:
  assumes "declared this fn" "file_name_override this fn = None"
  shows "getEnvFileName this fn = Inr (default_file_name (getRegion this) (getStage this) fn)"
  using assms declared_functions_get [of this fn]
  by (auto simp: declared_def file_name_override_def getEnvFileName_def)

subsection \<open>Runs of a capture\<close>






lemma createCFFile_sync_then_write:
  "createCFFile this fn env w =
     (case createCFFile_sync this fn env w of
        (Inl err, w1) \<Rightarrow> (Inl err, w1)
      | (Inr (fullFileName, data), w2) \<Rightarrow>
          (case writeFile fullFileName data w2 of
             (Inl err, w3) \<Rightarrow> (Inl err, w3)
           | (Inr _, w3) \<Rightarrow> (Inr data, w3)))"
  by (simp add: createCFFile_def createCFFile_sync_def Let_def
           split: sum.splits prod.splits bool.splits)


























lemma join_neq_dir: "path @ ''/'' @ n \<noteq> path"
  by simp






















lemma remote_name:
  "getStackName this @ ''-'' @ fn = service_service this @ ''-'' @ getStage this @ ''-'' @ fn"
  by (simp add: getStackName_def)


section \<open>The claims\<close>

subsection \<open>C1: writing and reading back\<close>

text \<open>
  C1. Writing and reading back does not yield the map that was written when a value holds
  a backslash followed by \<open>n\<close>. \<^verbatim>\<open>createCFFile\<close> escapes line feeds and nothing else, so
  that value and a value holding a line feed give the same call result, the same file and
  the same state; whatever the parser, reading back gives the same map for both, which is
  not the map written for at least one of them.
\<close>

theorem write_collides_on_backslash_n:
  "ex_env_backslash \<noteq> ex_env_linefeed
   \<and> createCFFile ex_plugin ''hello'' ex_env_backslash ex_world
       = createCFFile ex_plugin ''hello'' ex_env_linefeed ex_world
   \<and> fst (createCFFile ex_plugin ''hello'' ex_env_backslash ex_world)
       = Inr (''A='' @ [CHR 0x5C, CHR ''n'', CHR 0x0A])
   \<and> files (snd (createCFFile ex_plugin ''hello'' ex_env_backslash ex_world))
        ''/proj/.serverless-env-local/.us-east-1_dev_hello''
       = Some (File (''A='' @ [CHR 0x5C, CHR ''n'', CHR 0x0A]))
   \<and> getCFFileVars parseFile ex_plugin ''hello''
        (snd (createCFFile ex_plugin ''hello'' ex_env_backslash ex_world))
       = getCFFileVars parseFile ex_plugin ''hello''
        (snd (createCFFile ex_plugin ''hello'' ex_env_linefeed ex_world))"
  by (simp add: ex_defs model_defs)

subsection \<open>C2: the content of the written file\<close>

text \<open>
  C2. Whenever \<^verbatim>\<open>createCFFile\<close> completes successfully, the data it resolves to is the
  concatenation, in the order of the entries, of the key, \<open>=\<close>, the value with each line
  feed written as backslash \<open>n\<close>, and a line feed; and the file at directory \<open>/\<close> file
  name holds exactly that data afterwards, whatever it held before.
\<close>

theorem createCFFile_file_content:
  "createCFFile this functionName resources w = (Inr data, w') \<Longrightarrow>
   \<exists>fileName. getEnvFileName this functionName = Inr fileName
     \<and> data = serialized resources
     \<and> files w' (getEnvDirectory this @ ''/'' @ fileName) = Some (File data)"
  using createCFFile_success [of this functionName resources w data w']
  by (simp add: properties_data_serialized)

theorem createCFFile_file_content_witness:
  "files ex_world_stale ''/proj/.serverless-env-local/.us-east-1_dev_hello''
     = Some (File (''OLD=1'' @ [CHR 0x0A] @ ''GONE=2'' @ [CHR 0x0A]))
   \<and> fst (createCFFile ex_plugin ''hello'' ex_env ex_world_stale)
     = Inr (''FOO=bar'' @ [CHR 0x0A] @ ''MULTI=line1'' @ [CHR 0x5C, CHR ''n''] @ ''line2'' @ [CHR 0x0A])
   \<and> serialized ex_env
     = ''FOO=bar'' @ [CHR 0x0A] @ ''MULTI=line1'' @ [CHR 0x5C, CHR ''n''] @ ''line2'' @ [CHR 0x0A]
   \<and> files (snd (createCFFile ex_plugin ''hello'' ex_env ex_world_stale))
        ''/proj/.serverless-env-local/.us-east-1_dev_hello''
     = Some (File (''FOO=bar'' @ [CHR 0x0A] @ ''MULTI=line1'' @ [CHR 0x5C, CHR ''n''] @ ''line2'' @ [CHR 0x0A]))"
proof -
  let ?r = "createCFFile ex_plugin ''hello'' ex_env ex_world_stale"
  let ?d = "''FOO=bar'' @ [CHR 0x0A] @ ''MULTI=line1'' @ [CHR 0x5C, CHR ''n''] @ ''line2'' @ [CHR 0x0A]"
  have e: "fst ?r = Inr ?d"
    by (simp add: ex_defs model_defs)
  then have h: "?r = (Inr ?d, snd ?r)"
    by (simp add: prod_eq_iff)
  have n: "getEnvFileName ex_plugin ''hello'' = Inr ''.us-east-1_dev_hello''"
    by (simp add: ex_defs model_defs)
  have d: "getEnvDirectory ex_plugin = ''/proj/.serverless-env-local''"
    by (simp add: ex_defs model_defs)
  have o: "files ex_world_stale ''/proj/.serverless-env-local/.us-east-1_dev_hello''
     = Some (File (''OLD=1'' @ [CHR 0x0A] @ ''GONE=2'' @ [CHR 0x0A]))"
    by (simp add: ex_defs)
  from createCFFile_file_content [OF h] n d
  have "serialized ex_env = ?d
        \<and> files (snd ?r) ''/proj/.serverless-env-local/.us-east-1_dev_hello'' = Some (File ?d)"
    by simp
  with e o show ?thesis by simp
qed

subsection \<open>C3: reading a file that does not exist\<close>

text \<open>
  C3. For every address (the file name resolves) whose file does not exist,
  \<^verbatim>\<open>getCFFileVars\<close> returns the empty map and raises nothing, whatever the parser is.
\<close>

theorem getCFFileVars_missing_file:
  "getEnvFileName this functionName = Inr fileName \<Longrightarrow>
   files w (getEnvDirectory this @ ''/'' @ fileName) = None \<Longrightarrow>
   getCFFileVars parseFile this functionName w = Inr []"
  by (simp add: getCFFileVars_def existsSync_def)

theorem getCFFileVars_missing_file_witness:
  "getEnvFileName ex_plugin ''hello'' = Inr ''.us-east-1_dev_hello''
   \<and> files ex_world (getEnvDirectory ex_plugin @ ''/'' @ ''.us-east-1_dev_hello'') = None
   \<and> getCFFileVars parseFile_spec ex_plugin ''hello'' ex_world = Inr []"
proof -
  have n: "getEnvFileName ex_plugin ''hello'' = Inr ''.us-east-1_dev_hello''"
    by (simp add: ex_defs model_defs)
  have f: "files ex_world (getEnvDirectory ex_plugin @ ''/'' @ ''.us-east-1_dev_hello'') = None"
    by (simp add: ex_defs model_defs)
  show ?thesis using n f getCFFileVars_missing_file [OF n f, of parseFile_spec] by simp
qed

subsection \<open>C4: one independent pipeline per function\<close>



subsection \<open>C5: the directory path is a plain file\<close>

text \<open>
  C5. For every address whose directory path exists and is a plain file,
  \<^verbatim>\<open>createCFFile\<close> fails with the error "Expected <path> to be a directory" and leaves the
  file system, the log and the environment as they were.
\<close>

theorem createCFFile_directory_is_file:
  "getEnvFileName this functionName = Inr fileName \<Longrightarrow>
   files w (getEnvDirectory this) = Some (File content) \<Longrightarrow>
   createCFFile this functionName resources w = (Inl (ExpectedDirectory (getEnvDirectory this)), w)"
  by (rule createCFFile_not_dir)

theorem createCFFile_directory_is_file_witness:
  "getEnvFileName ex_plugin ''hello'' = Inr ''.us-east-1_dev_hello''
   \<and> files ex_world_blocked (getEnvDirectory ex_plugin) = Some (File ''notes'')
   \<and> createCFFile ex_plugin ''hello'' ex_env ex_world_blocked
       = (Inl (ExpectedDirectory ''/proj/.serverless-env-local''), ex_world_blocked)"
proof -
  have n: "getEnvFileName ex_plugin ''hello'' = Inr ''.us-east-1_dev_hello''"
    by (simp add: ex_defs model_defs)
  have f: "files ex_world_blocked (getEnvDirectory ex_plugin) = Some (File ''notes'')"
    by (simp add: ex_defs model_defs)
  have d: "getEnvDirectory ex_plugin = ''/proj/.serverless-env-local''"
    by (simp add: ex_defs model_defs)
  show ?thesis using n f createCFFile_directory_is_file [OF n f, of ex_env] d by simp
qed

subsection \<open>C6: creating the directory\<close>




subsection \<open>C7: the file name\<close>

text \<open>
  C7. For a declared function with no override, \<^verbatim>\<open>getEnvFileName\<close> returns
  \<open>.<region>_<stage>_<functionName>\<close>; the name depends on the triple only (same triple,
  same name); when \<open>_\<close> occurs neither in the regions nor in the stages, equal names come
  from equal triples; and when the function declares an override, the override is
  returned instead.
\<close>

theorem getEnvFileName_default_and_override:
  "(declared this functionName \<and> file_name_override this functionName = None
      \<longrightarrow> getEnvFileName this functionName
          = Inr (''.'' @ getRegion this @ ''_'' @ getStage this @ ''_'' @ functionName))
   \<and> (declared this functionName \<and> file_name_override this functionName = None
      \<and> declared this' functionName \<and> file_name_override this' functionName = None
      \<and> getRegion this = getRegion this' \<and> getStage this = getStage this'
      \<longrightarrow> getEnvFileName this functionName = getEnvFileName this' functionName)
   \<and> (declared this functionName \<and> file_name_override this functionName = None
      \<and> declared this' functionName' \<and> file_name_override this' functionName' = None
      \<and> CHR ''_'' \<notin> set (getRegion this) \<and> CHR ''_'' \<notin> set (getStage this)
      \<and> CHR ''_'' \<notin> set (getRegion this') \<and> CHR ''_'' \<notin> set (getStage this')
      \<and> getEnvFileName this functionName = getEnvFileName this' functionName'
      \<longrightarrow> getRegion this = getRegion this' \<and> getStage this = getStage this'
          \<and> functionName = functionName')
   \<and> (file_name_override this functionName = Some customName
      \<longrightarrow> getEnvFileName this functionName = Inr customName)"
proof (intro conjI impI)
  assume "declared this functionName \<and> file_name_override this functionName = None"
  then show "getEnvFileName this functionName
          = Inr (''.'' @ getRegion this @ ''_'' @ getStage this @ ''_'' @ functionName)"
    using getEnvFileName_no_override [of this functionName] by (simp add: default_file_name_def)
next
  assume "declared this functionName \<and> file_name_override this functionName = None
      \<and> declared this' functionName \<and> file_name_override this' functionName = None
      \<and> getRegion this = getRegion this' \<and> getStage this = getStage this'"
  then show "getEnvFileName this functionName = getEnvFileName this' functionName"
    using getEnvFileName_no_override [of this functionName]
      getEnvFileName_no_override [of this' functionName] by simp
next
  assume a: "declared this functionName \<and> file_name_override this functionName = None
      \<and> declared this' functionName' \<and> file_name_override this' functionName' = None
      \<and> CHR ''_'' \<notin> set (getRegion this) \<and> CHR ''_'' \<notin> set (getStage this)
      \<and> CHR ''_'' \<notin> set (getRegion this') \<and> CHR ''_'' \<notin> set (getStage this')
      \<and> getEnvFileName this functionName = getEnvFileName this' functionName'"
  then have "default_file_name (getRegion this) (getStage this) functionName
        = default_file_name (getRegion this') (getStage this') functionName'"
    using getEnvFileName_no_override [of this functionName]
      getEnvFileName_no_override [of this' functionName'] by simp
  with a have "getRegion this = getRegion this' \<and> getStage this = getStage this'
          \<and> functionName = functionName'"
    by (intro default_file_name_inject) simp_all
  then show "getRegion this = getRegion this'" "getStage this = getStage this'"
    "functionName = functionName'" by simp_all
next
  assume "file_name_override this functionName = Some customName"
  then show "getEnvFileName this functionName = Inr customName"
    by (auto simp: file_name_override_def getEnvFileName_def functions_get_def split: option.splits)
qed

theorem getEnvFileName_default_and_override_witness:
  "declared ex_plugin ''hello'' \<and> file_name_override ex_plugin ''hello'' = None
   \<and> CHR ''_'' \<notin> set (getRegion ex_plugin) \<and> CHR ''_'' \<notin> set (getStage ex_plugin)
   \<and> getEnvFileName ex_plugin ''hello'' = Inr ''.us-east-1_dev_hello''
   \<and> file_name_override ex_plugin_override ''hello'' = Some ''hello.env''
   \<and> getEnvFileName ex_plugin_override ''hello'' = Inr ''hello.env''
   \<and> declared ex_plugin_empty_override ''hello''
   \<and> file_name_override ex_plugin_empty_override ''hello'' = None
   \<and> getEnvFileName ex_plugin_empty_override ''hello'' = Inr ''.us-east-1_dev_hello''"
proof -
  have a: "declared ex_plugin ''hello'' \<and> file_name_override ex_plugin ''hello'' = None"
    by (simp add: ex_defs declared_def file_name_override_def and_get_def truthy_def)
  have b: "CHR ''_'' \<notin> set (getRegion ex_plugin) \<and> CHR ''_'' \<notin> set (getStage ex_plugin)"
    by (simp add: ex_defs model_defs)
  have c: "file_name_override ex_plugin_override ''hello'' = Some ''hello.env''"
    by (simp add: ex_defs file_name_override_def and_get_def truthy_def)
  have d: "declared ex_plugin_empty_override ''hello''
           \<and> file_name_override ex_plugin_empty_override ''hello'' = None"
    by (simp add: ex_defs declared_def file_name_override_def and_get_def truthy_def)
  have r: "getRegion ex_plugin = ''us-east-1''" "getStage ex_plugin = ''dev''"
    "getRegion ex_plugin_empty_override = ''us-east-1''" "getStage ex_plugin_empty_override = ''dev''"
    by (simp_all add: ex_defs model_defs)
  show ?thesis
    using a b c d
      getEnvFileName_default_and_override [of ex_plugin "''hello''" ex_plugin "''hello''" "''hello.env''"]
      getEnvFileName_default_and_override [of ex_plugin_override "''hello''" ex_plugin "''hello''" "''hello.env''"]
      getEnvFileName_default_and_override [of ex_plugin_empty_override "''hello''" ex_plugin "''hello''" "''hello.env''"]
    by (simp add: r)
qed

subsection \<open>C8: injecting before a local invocation\<close>

text \<open>
  C8. When the command line names the target function and reading its file yields a map,
  \<^verbatim>\<open>beforeLocalInvoke\<close> completes without error, leaves the files alone, and the process
  environment afterwards is the old one overwritten with the entries of the map: every
  entry of the map is set, and every other variable keeps its value. With an empty map the
  environment is unchanged.
\<close>

theorem beforeLocalInvoke_injects:
  assumes "options this = Some opts"
    and "getCFFileVars parseFile this (opt_function opts) w = Inr envVars"
  shows "fst (beforeLocalInvoke parseFile this w) = Inr ()
     \<and> files (snd (beforeLocalInvoke parseFile this w)) = files w
     \<and> process_env (snd (beforeLocalInvoke parseFile this w)) = process_env w ++ map_of (rev envVars)
     \<and> (distinct (map fst envVars) \<longrightarrow>
          (\<forall>(key, val) \<in> set envVars. process_env (snd (beforeLocalInvoke parseFile this w)) key = Some val))
     \<and> (\<forall>key. key \<notin> fst ` set envVars \<longrightarrow>
          process_env (snd (beforeLocalInvoke parseFile this w)) key = process_env w key)
     \<and> (envVars = [] \<longrightarrow> process_env (snd (beforeLocalInvoke parseFile this w)) = process_env w)"
proof -
  let ?w' = "snd (beforeLocalInvoke parseFile this w)"
  from beforeLocalInvoke_result [OF assms] obtain fileName where
    r: "beforeLocalInvoke parseFile this w =
       (Inr (), (log (pulling_message (getEnvDirectory this @ ''/'' @ fileName)) w)
                  \<lparr>process_env := process_env w ++ map_of (rev envVars)\<rparr>)"
    by blast
  have env: "process_env ?w' = process_env w ++ map_of (rev envVars)" by (simp add: r)
  have "distinct (map fst envVars) \<longrightarrow> (\<forall>(key, val) \<in> set envVars. process_env ?w' key = Some val)"
    by (auto simp: env map_of_rev_distinct map_add_def)
  moreover have "map_of (rev envVars) key = None" if "key \<notin> fst ` set envVars" for key
    using that by (simp add: map_of_eq_None_iff)
  then have "\<forall>key. key \<notin> fst ` set envVars \<longrightarrow> process_env ?w' key = process_env w key"
    by (simp add: env map_add_def)
  ultimately show ?thesis using env by (simp add: r log_fields)
qed

theorem beforeLocalInvoke_injects_witness:
  "options ex_plugin = Some \<lparr>opt_stage = None, opt_region = None, opt_function = ''hello''\<rparr>
   \<and> getCFFileVars parseFile_spec ex_plugin ''hello'' (snd (createCFFile ex_plugin ''hello'' ex_env ex_world))
       = Inr ex_env
   \<and> distinct (map fst ex_env)
   \<and> process_env ex_world ''FOO'' = Some ''old''
   \<and> fst (beforeLocalInvoke parseFile_spec ex_plugin (snd (createCFFile ex_plugin ''hello'' ex_env ex_world)))
       = Inr ()
   \<and> process_env (snd (beforeLocalInvoke parseFile_spec ex_plugin
                          (snd (createCFFile ex_plugin ''hello'' ex_env ex_world)))) ''FOO'' = Some ''bar''
   \<and> process_env (snd (beforeLocalInvoke parseFile_spec ex_plugin
                          (snd (createCFFile ex_plugin ''hello'' ex_env ex_world)))) ''MULTI''
       = Some (''line1'' @ [CHR 0x0A] @ ''line2'')
   \<and> process_env (snd (beforeLocalInvoke parseFile_spec ex_plugin
                          (snd (createCFFile ex_plugin ''hello'' ex_env ex_world)))) ''HOME'' = Some ''/root''
   \<and> getCFFileVars parseFile_spec ex_plugin ''hello'' ex_world = Inr []
   \<and> fst (beforeLocalInvoke parseFile_spec ex_plugin ex_world) = Inr ()
   \<and> process_env (snd (beforeLocalInvoke parseFile_spec ex_plugin ex_world)) = process_env ex_world"
proof -
  let ?o = "\<lparr>opt_stage = None, opt_region = None, opt_function = ''hello''\<rparr>"
  let ?w = "snd (createCFFile ex_plugin ''hello'' ex_env ex_world)"
  have o: "options ex_plugin = Some ?o" by (simp add: ex_plugin_def)
  have g: "getCFFileVars parseFile_spec ex_plugin ''hello'' ?w = Inr ex_env"
    by (simp add: ex_defs model_defs parseFile_spec_def parse_line_def obj_set_def)
  then have g': "getCFFileVars parseFile_spec ex_plugin (opt_function ?o) ?w = Inr ex_env" by simp
  have e: "getCFFileVars parseFile_spec ex_plugin ''hello'' ex_world = Inr []"
    by (simp add: ex_defs model_defs)
  then have e': "getCFFileVars parseFile_spec ex_plugin (opt_function ?o) ex_world = Inr []" by simp
  have d: "distinct (map fst ex_env)" by (simp add: ex_env_def)
  have p: "process_env ?w = process_env ex_world"
    by (simp add: ex_defs model_defs)
  have q: "process_env ex_world ''FOO'' = Some ''old''" "process_env ex_world ''HOME'' = Some ''/root''"
    by (simp_all add: ex_world_def)
  let ?i = "snd (beforeLocalInvoke parseFile_spec ex_plugin ?w)"
  from beforeLocalInvoke_injects [OF o g']
  have i: "fst (beforeLocalInvoke parseFile_spec ex_plugin ?w) = Inr ()
           \<and> process_env ?i = process_env ex_world ++ map_of (rev ex_env)"
    by (simp add: p)
  then have v: "process_env ?i ''FOO'' = Some ''bar''"
    "process_env ?i ''MULTI'' = Some (''line1'' @ [CHR 0x0A] @ ''line2'')"
    "process_env ?i ''HOME'' = Some ''/root''"
    by (simp_all add: ex_env_def ex_world_def map_add_def)
  from beforeLocalInvoke_injects [OF o e']
  have n: "fst (beforeLocalInvoke parseFile_spec ex_plugin ex_world) = Inr ()
           \<and> process_env (snd (beforeLocalInvoke parseFile_spec ex_plugin ex_world)) = process_env ex_world"
    by simp
  show ?thesis
    by (intro conjI) (use o g e d q i v n in \<open>simp_all only:\<close>)
qed

subsection \<open>C9: stage and region precedence\<close>

text \<open>
  C9. \<^verbatim>\<open>getStage\<close> is the first non-empty value among the command-line option (absent
  when there are no options), the project configuration and the provider section, in that
  order, and \<open>dev\<close> when all are empty or absent; \<^verbatim>\<open>getRegion\<close> likewise with
  \<open>us-east-1\<close>.
\<close>

theorem getStage_getRegion_precedence:
  "getStage this
     = resolveStage (case options this of None \<Rightarrow> None | Some opts \<Rightarrow> opt_stage opts)
         (config_stage this) (provider_stage this)
   \<and> getRegion this
     = resolveRegion (case options this of None \<Rightarrow> None | Some opts \<Rightarrow> opt_region opts)
         (config_region this) (provider_region this)"
proof (intro conjI)
  show "getStage this
     = resolveStage (case options this of None \<Rightarrow> None | Some opts \<Rightarrow> opt_stage opts)
         (config_stage this) (provider_stage this)"
    by (simp add: getStage_def resolveStage_def truthy_def and_get_def split: option.splits)
  show "getRegion this
     = resolveRegion (case options this of None \<Rightarrow> None | Some opts \<Rightarrow> opt_region opts)
         (config_region this) (provider_region this)"
    by (simp add: getRegion_def resolveRegion_def truthy_def and_get_def split: option.splits)
qed

theorem getStage_getRegion_precedence_witness:
  "getStage (ex_plugin\<lparr>options := Some \<lparr>opt_stage = Some ''prod'', opt_region = Some [], opt_function = ''hello''\<rparr>,
                        config_stage := Some ''qa'', provider_stage := Some ''beta'',
                        config_region := Some ''eu-west-1'', provider_region := Some ''ap-south-1''\<rparr>) = ''prod''
   \<and> getRegion (ex_plugin\<lparr>options := Some \<lparr>opt_stage = Some ''prod'', opt_region = Some [], opt_function = ''hello''\<rparr>,
                        config_stage := Some ''qa'', provider_stage := Some ''beta'',
                        config_region := Some ''eu-west-1'', provider_region := Some ''ap-south-1''\<rparr>) = ''eu-west-1''
   \<and> getStage (ex_plugin\<lparr>options := None, config_stage := Some [], provider_stage := Some ''beta'',
                        provider_region := Some ''ap-south-1''\<rparr>) = ''beta''
   \<and> getRegion (ex_plugin\<lparr>options := None, config_stage := Some [], provider_stage := Some ''beta'',
                        provider_region := Some ''ap-south-1''\<rparr>) = ''ap-south-1''
   \<and> getStage ex_plugin = ''dev'' \<and> getRegion ex_plugin = ''us-east-1''"
proof -
  let ?cli = "ex_plugin\<lparr>options := Some \<lparr>opt_stage = Some ''prod'', opt_region = Some [], opt_function = ''hello''\<rparr>,
                        config_stage := Some ''qa'', provider_stage := Some ''beta'',
                        config_region := Some ''eu-west-1'', provider_region := Some ''ap-south-1''\<rparr>"
  let ?prov = "ex_plugin\<lparr>options := None, config_stage := Some [], provider_stage := Some ''beta'',
                        provider_region := Some ''ap-south-1''\<rparr>"
  have a: "getStage ?cli = ''prod'' \<and> getRegion ?cli = ''eu-west-1''"
    using getStage_getRegion_precedence [of ?cli]
    by (simp add: ex_plugin_def resolveStage_def resolveRegion_def)
  have b: "getStage ?prov = ''beta'' \<and> getRegion ?prov = ''ap-south-1''"
    using getStage_getRegion_precedence [of ?prov]
    by (simp add: ex_plugin_def resolveStage_def resolveRegion_def)
  have c: "getStage ex_plugin = ''dev'' \<and> getRegion ex_plugin = ''us-east-1''"
    using getStage_getRegion_precedence [of ex_plugin]
    by (simp add: ex_plugin_def resolveStage_def resolveRegion_def)
  from a b c show ?thesis by (intro conjI) (simp_all only:)
qed

subsection \<open>C10: a function name that is not declared\<close>

text \<open>
  \<open>toString\<close> is not a key of the declared functions, yet \<^verbatim>\<open>functions['toString']\<close> is the
  function every object inherits: its \<^verbatim>\<open>custom\<close> is \<^verbatim>\<open>undefined\<close>, nothing throws, the
  default file name is returned, and reading a file that does not exist injects nothing.
\<close>

theorem inherited_name_does_not_throw_counterexample:
  "\<not> declared ex_plugin ''toString''
   \<and> getEnvFileName ex_plugin ''toString'' = Inr ''.us-east-1_dev_toString''
   \<and> getCFFileVars parseFile_spec ex_plugin ''toString'' ex_world = Inr []
   \<and> fst (beforeLocalInvoke parseFile_spec
        (ex_plugin\<lparr>options := Some \<lparr>opt_stage = None, opt_region = None, opt_function = ''toString''\<rparr>\<rparr>)
        ex_world) = Inr ()"
  by (simp add: ex_defs declared_def model_defs beforeLocalInvoke_def pulling_message_def)

text \<open>
  C10, amended. For a function name that is not a key of the declared functions and is
  not one of the property names every object inherits from \<^verbatim>\<open>Object.prototype\<close>, resolving
  the file name throws (reading \<^verbatim>\<open>.custom\<close> of \<^verbatim>\<open>undefined\<close>), and so do writing, reading
  and injecting for that name; nothing falls back to the default name or to an empty map,
  and the state is untouched. For an inherited name that is not a key, the default file
  name is returned.
\<close>

theorem undeclared_function_throws:
  "(\<not> declared this functionName
      \<and> functionName \<notin> set [''constructor'', ''__defineGetter__'', ''__defineSetter__'',
            ''hasOwnProperty'', ''__lookupGetter__'', ''__lookupSetter__'', ''isPrototypeOf'',
            ''propertyIsEnumerable'', ''toString'', ''valueOf'', ''__proto__'', ''toLocaleString'']
      \<longrightarrow> getEnvFileName this functionName
            = Inl (TypeError ''Cannot read property custom of undefined'')
        \<and> createCFFile this functionName resources w
            = (Inl (TypeError ''Cannot read property custom of undefined''), w)
        \<and> getCFFileVars parseFile this functionName w
            = Inl (TypeError ''Cannot read property custom of undefined'')
        \<and> (options this = Some opts \<and> opt_function opts = functionName
             \<longrightarrow> beforeLocalInvoke parseFile this w
                 = (Inl (TypeError ''Cannot read property custom of undefined''), w)))
   \<and> (\<not> declared this functionName
      \<and> functionName \<in> set [''constructor'', ''__defineGetter__'', ''__defineSetter__'',
            ''hasOwnProperty'', ''__lookupGetter__'', ''__lookupSetter__'', ''isPrototypeOf'',
            ''propertyIsEnumerable'', ''toString'', ''valueOf'', ''__proto__'', ''toLocaleString'']
      \<longrightarrow> getEnvFileName this functionName
            = Inr (''.'' @ getRegion this @ ''_'' @ getStage this @ ''_'' @ functionName))"
proof (intro conjI impI)
  assume a: "\<not> declared this functionName
      \<and> functionName \<notin> set [''constructor'', ''__defineGetter__'', ''__defineSetter__'',
            ''hasOwnProperty'', ''__lookupGetter__'', ''__lookupSetter__'', ''isPrototypeOf'',
            ''propertyIsEnumerable'', ''toString'', ''valueOf'', ''__proto__'', ''toLocaleString'']"
  then have g: "functions_get this functionName = None"
    by (simp add: declared_def functions_get_def object_prototype_names_def)
  then show n: "getEnvFileName this functionName
            = Inl (TypeError ''Cannot read property custom of undefined'')"
    by (simp add: getEnvFileName_def custom_of_undefined_def)
  then show "createCFFile this functionName resources w
            = (Inl (TypeError ''Cannot read property custom of undefined''), w)"
    by (simp add: createCFFile_def)
  from n show "getCFFileVars parseFile this functionName w
            = Inl (TypeError ''Cannot read property custom of undefined'')"
    by (simp add: getCFFileVars_def)
  assume "options this = Some opts \<and> opt_function opts = functionName"
  with n show "beforeLocalInvoke parseFile this w
                 = (Inl (TypeError ''Cannot read property custom of undefined''), w)"
    by (auto simp: beforeLocalInvoke_def)
next
  assume "\<not> declared this functionName
      \<and> functionName \<in> set [''constructor'', ''__defineGetter__'', ''__defineSetter__'',
            ''hasOwnProperty'', ''__lookupGetter__'', ''__lookupSetter__'', ''isPrototypeOf'',
            ''propertyIsEnumerable'', ''toString'', ''valueOf'', ''__proto__'', ''toLocaleString'']"
  then have "functions_get this functionName = Some \<lparr>fn_custom = None\<rparr>"
    unfolding declared_def functions_get_def object_prototype_names_def by auto
  then show "getEnvFileName this functionName
            = Inr (''.'' @ getRegion this @ ''_'' @ getStage this @ ''_'' @ functionName)"
    by (simp add: getEnvFileName_def and_get_def truthy_def default_file_name_def)
qed

theorem undeclared_function_throws_witness:
  "\<not> declared ex_plugin ''ghost''
   \<and> getEnvFileName ex_plugin ''ghost'' = Inl (TypeError ''Cannot read property custom of undefined'')
   \<and> createCFFile ex_plugin ''ghost'' ex_env ex_world
       = (Inl (TypeError ''Cannot read property custom of undefined''), ex_world)
   \<and> getCFFileVars parseFile_spec ex_plugin ''ghost'' ex_world
       = Inl (TypeError ''Cannot read property custom of undefined'')
   \<and> beforeLocalInvoke parseFile_spec
        (ex_plugin\<lparr>options := Some \<lparr>opt_stage = None, opt_region = None, opt_function = ''ghost''\<rparr>\<rparr>) ex_world
      = (Inl (TypeError ''Cannot read property custom of undefined''), ex_world)
   \<and> \<not> declared ex_plugin ''constructor''
   \<and> getEnvFileName ex_plugin ''constructor'' = Inr ''.us-east-1_dev_constructor''"
proof -
  let ?o = "\<lparr>opt_stage = None, opt_region = None, opt_function = ''ghost''\<rparr>"
  let ?p = "ex_plugin\<lparr>options := Some ?o\<rparr>"
  have a: "\<not> declared ex_plugin ''ghost''" by (simp add: declared_def ex_plugin_def)
  have b: "\<not> declared ?p ''ghost''" by (simp add: declared_def ex_plugin_def)
  have c: "options ?p = Some ?o \<and> opt_function ?o = ''ghost''" by simp
  have d: "\<not> declared ex_plugin ''constructor''" by (simp add: declared_def ex_plugin_def)
  have r: "getRegion ex_plugin = ''us-east-1''" "getStage ex_plugin = ''dev''"
    by (simp_all add: ex_defs model_defs)
  show ?thesis
    using a c d
      undeclared_function_throws [of ex_plugin "''ghost''" ex_env ex_world parseFile_spec ?o]
      undeclared_function_throws [of ?p "''ghost''" ex_env ex_world parseFile_spec ?o]
      undeclared_function_throws [of ex_plugin "''constructor''" ex_env ex_world parseFile_spec ?o]
    using b by (simp add: r)
qed

end
